theory Spec2Isabelle
  imports Main
begin

section \<open>The page and comment manager of the wiki service\<close>

text \<open>
  A shallow embedding of \<^verbatim>\<open>wikis/wiki_service/pages_manager.go\<close>. The manager is a thin
  layer over collaborators that live in other packages: the per-wiki document store
  (\<^verbatim>\<open>wikit.Wiki\<close>), the main database with its slug view, the wiki manager, the role
  helpers, the CommonMark parser and the HTML sanitizer. The collaborators are parameters
  of the model, so every theorem holds for whatever they answer; the model records each
  call made to them, in order.
\<close>

subsection \<open>Entities\<close>

text \<open>
  The structs are declared in the packages \<^verbatim>\<open>entities\<close> and \<^verbatim>\<open>wikit\<close>; the records
  below carry the fields the manager reads or writes.
\<close>

type_synonym Auth = string

record User =
  UserName :: string
  Roles :: "string list"

record CurrentUserInfo =
  Auth :: Auth
  User :: User

record PageContent =
  Raw :: string
  Formatted :: string

record Page =
  Title :: string
  Lineage :: "string list"
  OwningPage :: string
  Content :: PageContent

record Comment =
  Author :: string
  Content :: PageContent

record WikiRecord =
  HomePageId :: string

record MultiPageRow =
  Id' :: string
  Doc :: Page

record MultiPageResponse =
  Rows :: "MultiPageRow list"

record WikiSlugViewResponseRow =
  Id' :: string

record WikiSlugViewResponse =
  Rows :: "WikiSlugViewResponseRow list"

record Breadcrumb =
  Name :: string
  PageId :: string
  WikiId :: string
  Parent :: string

subsection \<open>Errors\<close>

text \<open>
  A Go \<^verbatim>\<open>error\<close> is a value. The manager either hands back, unchanged, the error a
  collaborator returned (\<open>Upstream\<close>), or makes one itself: \<^verbatim>\<open>NotFoundError()\<close>,
  \<^verbatim>\<open>BadRequestError()\<close>, or \<^verbatim>\<open>errors.New(text)\<close>, which allocates a fresh error value
  at each call.
\<close>

datatype upstream_error = UpstreamError string

datatype error =
    Upstream upstream_error
  | NotFoundError
  | BadRequestError
  | ErrorsNew string

definition Forbidden :: error where
  "Forbidden = ErrorsNew ''[Error]:403: Not Authorized''"

definition pass :: "upstream_error + 'a \<Rightarrow> error + 'a" where
  "pass r = (case r of Inl err \<Rightarrow> Inl (Upstream err) | Inr x \<Rightarrow> Inr x)"

subsection \<open>Collaborators\<close>

record Wiki =
  wikiDb :: string
  wikiAuth :: Auth

record Database =
  dbName :: string
  dbAuth :: Auth

text \<open>
  \<^verbatim>\<open>wikit.SelectWiki(Connection, name, auth)\<close> and \<^verbatim>\<open>Connection.SelectDB(name, auth)\<close>
  return a handle on a database; no request is sent until an operation is called on it.
\<close>

definition SelectWiki :: "string \<Rightarrow> Auth \<Rightarrow> Wiki" where
  "SelectWiki name auth = \<lparr>wikiDb = name, wikiAuth = auth\<rparr>"

definition SelectDB :: "string \<Rightarrow> Auth \<Rightarrow> Database" where
  "SelectDB name auth = \<lparr>dbName = name, dbAuth = auth\<rparr>"

text \<open>
  The operations of the collaborators, over a state \<open>'s\<close> of their own. A Go function
  returning \<^verbatim>\<open>(value, error)\<close> answers here with the error or with the value, and the
  manager's own functions do the same: what Go returns beside a non-nil error is dropped.
  An operation that fills a struct through a pointer returns the struct.
\<close>

record 's Collaborators =
  Wiki_ReadPage :: "Wiki \<Rightarrow> string \<Rightarrow> 's \<Rightarrow> (upstream_error + string \<times> Page) \<times> 's"
  Wiki_SavePage ::
    "Wiki \<Rightarrow> Page \<Rightarrow> string \<Rightarrow> string \<Rightarrow> string \<Rightarrow> 's \<Rightarrow> (upstream_error + string) \<times> 's"
  Wiki_ReadPageBySlug :: "Wiki \<Rightarrow> string \<Rightarrow> 's \<Rightarrow> (upstream_error + string \<times> Page) \<times> 's"
  Wiki_DeletePage :: "Wiki \<Rightarrow> string \<Rightarrow> string \<Rightarrow> 's \<Rightarrow> (upstream_error + string) \<times> 's"
  Wiki_ReadMultiplePages ::
    "Wiki \<Rightarrow> string list \<Rightarrow> 's \<Rightarrow> (upstream_error + MultiPageResponse) \<times> 's"
  Wiki_ReadComment :: "Wiki \<Rightarrow> string \<Rightarrow> 's \<Rightarrow> (upstream_error + string \<times> Comment) \<times> 's"
  Wiki_SaveComment ::
    "Wiki \<Rightarrow> Comment \<Rightarrow> string \<Rightarrow> string \<Rightarrow> string \<Rightarrow> string \<Rightarrow> 's
      \<Rightarrow> (upstream_error + string) \<times> 's"
  DB_GetView ::
    "Database \<Rightarrow> string \<Rightarrow> string \<Rightarrow> string \<Rightarrow> 's \<Rightarrow> (upstream_error + WikiSlugViewResponse) \<times> 's"
  WikiManager_Read ::
    "string \<Rightarrow> CurrentUserInfo \<Rightarrow> 's \<Rightarrow> (upstream_error + string \<times> WikiRecord) \<times> 's"
  WikiManager_Update ::
    "string \<Rightarrow> string \<Rightarrow> WikiRecord \<Rightarrow> CurrentUserInfo \<Rightarrow> 's \<Rightarrow> (upstream_error + string) \<times> 's"
  HasRole :: "string list \<Rightarrow> string \<Rightarrow> bool"
  AdminRole :: "string \<Rightarrow> string"
  MasterRole :: string
  MainDbName :: string

text \<open>The calls the manager makes, with their arguments.\<close>

datatype call =
    ReadPageCall Wiki string
  | SavePageCall Wiki Page string string string
  | ReadPageBySlugCall Wiki string
  | DeletePageCall Wiki string string
  | ReadMultiplePagesCall Wiki "string list"
  | ReadCommentCall Wiki string
  | SaveCommentCall Wiki Comment string string string string
  | GetViewCall Database string string string
  | WikiManagerReadCall string CurrentUserInfo
  | WikiManagerUpdateCall string string WikiRecord CurrentUserInfo

record 's world =
  store :: 's
  calls :: "call list"

definition issue :: "call \<Rightarrow> ('s \<Rightarrow> 'r \<times> 's) \<Rightarrow> 's world \<Rightarrow> 'r \<times> 's world" where
  "issue c operation w =
     (case operation (store w) of
        (r, s') \<Rightarrow> (r, \<lparr>store = s', calls = calls w @ [c]\<rparr>))"

fun is_write :: "call \<Rightarrow> bool" where
  "is_write (SavePageCall _ _ _ _ _) = True"
| "is_write (DeletePageCall _ _ _) = True"
| "is_write (SaveCommentCall _ _ _ _ _ _) = True"
| "is_write (WikiManagerUpdateCall _ _ _ _) = True"
| "is_write _ = False"

subsection \<open>Rendering Markdown\<close>

text \<open>
  The parser (\<^verbatim>\<open>go-commonmark\<close>) and the sanitizer (\<^verbatim>\<open>bluemonday\<close>) are parameters. A
  call to either returns a value or panics. A panic carries a value; run-time faults
  carry an error, but \<^verbatim>\<open>panic(nil)\<close> is legal and carries \<^verbatim>\<open>nil\<close>.
\<close>

datatype panic_value = NilValue | PanicValue string

datatype 'a outcome = Returns 'a | Panics panic_value

type_synonym CMarkNode = nat

datatype Policy =
    UGCPolicy
  | AllowAttrsMatchingGlobally string string Policy

record MdLib =
  ParseDocument :: "string \<Rightarrow> nat \<Rightarrow> CMarkNode outcome"
  RenderHtml :: "CMarkNode \<Rightarrow> nat \<Rightarrow> string outcome"
  Free :: "CMarkNode \<Rightarrow> unit outcome"
  Sanitize :: "Policy \<Rightarrow> string \<Rightarrow> string outcome"
  CMARK_OPT_DEFAULT :: nat

text \<open>
  The pattern \<^verbatim>\<open>[\p{L}\p{N}\s\-_',:\[\]!\./\\\(\)&]*\<close>: every piece below follows a
  backslash.
\<close>

definition attrPattern :: string where
  "attrPattern =
     ''['' @ concat (map (\<lambda>piece. CHR 0x5C # piece)
        [''p{L}'', ''p{N}'', ''s'', ''-_',:'', ''['', '']!'', ''./'', [CHR 0x5C], ''('', '')&''])
     @ '']*''"

definition getSanitizerPolicy :: Policy where
  "getSanitizerPolicy =
     AllowAttrsMatchingGlobally ''data-id'' attrPattern
       (AllowAttrsMatchingGlobally ''data-plugin'' attrPattern UGCPolicy)"

text \<open>
  What \<^verbatim>\<open>processMarkdown\<close> does while it runs as a goroutine: the library calls, the
  log line, the values sent on \<^verbatim>\<open>out\<close>.
\<close>

datatype md_event =
    ParseDocumentCall string nat
  | RenderHtmlCall CMarkNode nat
  | FreeCall CMarkNode
  | SanitizeCall Policy string
  | LogPrintln panic_value
  | ChanSend string

record goroutine =
  events :: "md_event list"
  unrecovered :: "panic_value option"

text \<open>
  The statements of \<^verbatim>\<open>processMarkdown\<close> after its \<^verbatim>\<open>defer\<close>: they run until the
  last one is done or a call panics. The result is what happened, and the value of the
  panic that stopped them, if any.
\<close>

definition processMarkdownBody :: "MdLib \<Rightarrow> string \<Rightarrow> md_event list \<times> panic_value option" where
  "processMarkdownBody lib mdText =
     (let p = getSanitizerPolicy;
          opt = CMARK_OPT_DEFAULT lib;
          parse = ParseDocumentCall mdText 0
      in case ParseDocument lib mdText 0 of
           Panics v \<Rightarrow> ([parse], Some v)
         | Returns document \<Rightarrow>
             (case RenderHtml lib document opt of
                Panics v \<Rightarrow> ([parse, RenderHtmlCall document opt], Some v)
              | Returns htmlString \<Rightarrow>
                  (case Free lib document of
                     Panics v \<Rightarrow>
                       ([parse, RenderHtmlCall document opt, FreeCall document], Some v)
                   | Returns _ \<Rightarrow>
                       (case Sanitize lib p htmlString of
                          Panics v \<Rightarrow>
                            ([parse, RenderHtmlCall document opt, FreeCall document,
                              SanitizeCall p htmlString], Some v)
                        | Returns clean \<Rightarrow>
                            ([parse, RenderHtmlCall document opt, FreeCall document,
                              SanitizeCall p htmlString, ChanSend clean], None)))))"

text \<open>
  The deferred function runs when the body is over, however it ended. \<^verbatim>\<open>recover()\<close>
  stops a panic and returns its value, or returns \<^verbatim>\<open>nil\<close> when there is none. The test
  \<^verbatim>\<open>err != nil\<close> then decides: only with a value that is not \<^verbatim>\<open>nil\<close> a line is logged
  and the empty string is sent. A panic whose value is \<^verbatim>\<open>nil\<close> is stopped as well, and
  the test fails as if the body had ended normally. (This is \<^verbatim>\<open>recover\<close> as it was
  before Go 1.21, the language the repository is built with.)
\<close>

definition processMarkdown :: "MdLib \<Rightarrow> string \<Rightarrow> goroutine" where
  "processMarkdown lib mdText =
     (case processMarkdownBody lib mdText of
        (evs, panicking) \<Rightarrow>
          (let err = (case panicking of None \<Rightarrow> NilValue | Some v \<Rightarrow> v)
           in if err \<noteq> NilValue
              then \<lparr>events = evs @ [LogPrintln err, ChanSend ''''], unrecovered = None\<rparr>
              else \<lparr>events = evs, unrecovered = None\<rparr>))"

fun sends :: "md_event list \<Rightarrow> string list" where
  "sends [] = []"
| "sends (ChanSend s # es) = s # sends es"
| "sends (_ # es) = sends es"

fun frees :: "md_event list \<Rightarrow> CMarkNode list" where
  "frees [] = []"
| "frees (FreeCall d # es) = d # frees es"
| "frees (_ # es) = frees es"

text \<open>
  The caller starts the goroutine and waits on the channel: \<^verbatim>\<open>x = <-out\<close>. It gets the
  first value sent. With nothing sent it waits for ever, and a panic that leaves the
  goroutine ends the whole process.
\<close>

datatype 'a completion = Completed 'a | BlockedForever | ProcessCrashed panic_value

definition receive :: "goroutine \<Rightarrow> string completion" where
  "receive g =
     (case unrecovered g of
        Some v \<Rightarrow> ProcessCrashed v
      | None \<Rightarrow> (case sends (events g) of [] \<Rightarrow> BlockedForever | s # _ \<Rightarrow> Completed s))"

subsection \<open>The page manager\<close>

text \<open>
  Each function takes the collaborators, its Go arguments and the world, and returns its
  result with the world after its calls. \<open>Save\<close> and \<open>SaveComment\<close> wait on a channel, so
  their result is a \<open>completion\<close>.
\<close>

definition wikiDbString :: "string \<Rightarrow> string" where
  "wikiDbString wikiId = ''wiki_'' @ wikiId"

definition Read ::
  "'s Collaborators \<Rightarrow> string \<Rightarrow> string \<Rightarrow> CurrentUserInfo \<Rightarrow> 's world
    \<Rightarrow> (error + string \<times> Page) \<times> 's world" where
  "Read c wiki pageId curUser w =
     (let auth = Auth curUser;
          theWiki = SelectWiki (wikiDbString wiki) auth
      in case issue (ReadPageCall theWiki pageId) (Wiki_ReadPage c theWiki pageId) w of
           (r, w1) \<Rightarrow> (pass r, w1))"

text \<open>The body of the loop over the rows: the breadcrumb of one row.\<close>

definition makeCrumb :: "string \<Rightarrow> MultiPageRow \<Rightarrow> Breadcrumb" where
  "makeCrumb wiki row =
     (let theDoc = Doc row;
          parent =
            (if length (Lineage theDoc) \<ge> 2
             then Lineage theDoc ! (length (Lineage theDoc) - 2) else '''')
      in \<lparr>Name = Title theDoc, PageId = MultiPageRow.Id' row, WikiId = wiki, Parent = parent\<rparr>)"

fun crumbsLoop :: "string \<Rightarrow> MultiPageRow list \<Rightarrow> Breadcrumb list \<Rightarrow> Breadcrumb list" where
  "crumbsLoop wiki [] crumbs = crumbs"
| "crumbsLoop wiki (row # rows) crumbs = crumbsLoop wiki rows (crumbs @ [makeCrumb wiki row])"

definition GetBreadcrumbs ::
  "'s Collaborators \<Rightarrow> string \<Rightarrow> string \<Rightarrow> CurrentUserInfo \<Rightarrow> 's world
    \<Rightarrow> (error + Breadcrumb list) \<times> 's world" where
  "GetBreadcrumbs c wiki pageId curUser w =
     (case Read c wiki pageId curUser w of
        (Inl err, w1) \<Rightarrow> (Inl err, w1)
      | (Inr (_, thePage), w1) \<Rightarrow>
          (let theWiki = SelectWiki (wikiDbString wiki) (Auth curUser);
               szLineage = length (Lineage thePage);
               fetched =
                 (if szLineage > 1 then
                    (let lineage = take (szLineage - 1) (Lineage thePage)
                     in issue (ReadMultiplePagesCall theWiki lineage)
                          (Wiki_ReadMultiplePages c theWiki lineage) w1)
                  else (Inr \<lparr>MultiPageResponse.Rows = []\<rparr>, w1))
           in case fetched of
                (Inl err, w2) \<Rightarrow> (Inl (Upstream err), w2)
              | (Inr response, w2) \<Rightarrow>
                  (let currentPageRow = \<lparr>MultiPageRow.Id' = pageId, Doc = thePage\<rparr>;
                       rows = MultiPageResponse.Rows response @ [currentPageRow]
                   in (Inr (crumbsLoop wiki rows []), w2))))"


definition ReadBySlug ::
  "'s Collaborators \<Rightarrow> string \<Rightarrow> string \<Rightarrow> CurrentUserInfo \<Rightarrow> 's world
    \<Rightarrow> (error + string \<times> string \<times> Page) \<times> 's world" where
  "ReadBySlug c wikiSlug pageSlug curUser w =
     (let auth = Auth curUser;
          mainDbName = MainDbName c;
          mainDb = SelectDB mainDbName auth
      in case issue (GetViewCall mainDb ''wiki_query'' ''getWikiBySlug'' wikiSlug)
                (DB_GetView c mainDb ''wiki_query'' ''getWikiBySlug'' wikiSlug) w of
           (Inl err, w1) \<Rightarrow> (Inl (Upstream err), w1)
         | (Inr response, w1) \<Rightarrow>
             (case WikiSlugViewResponse.Rows response of
                row # _ \<Rightarrow>
                  (let wikiId = WikiSlugViewResponseRow.Id' row;
                       theWiki = SelectWiki (wikiDbString wikiId) auth
                   in case issue (ReadPageBySlugCall theWiki pageSlug)
                             (Wiki_ReadPageBySlug c theWiki pageSlug) w1 of
                        (Inl err, w2) \<Rightarrow> (Inl (Upstream err), w2)
                      | (Inr (pageRev, page), w2) \<Rightarrow> (Inr (wikiId, pageRev, page), w2))
              | [] \<Rightarrow> (Inl NotFoundError, w1)))"

definition Delete ::
  "'s Collaborators \<Rightarrow> string \<Rightarrow> string \<Rightarrow> string \<Rightarrow> CurrentUserInfo \<Rightarrow> 's world
    \<Rightarrow> (error + string) \<times> 's world" where
  "Delete c wiki pageId pageRev curUser w =
     (let auth = Auth curUser;
          theWiki = SelectWiki (wikiDbString wiki) auth;
          deletePage = (\<lambda>w'.
            case issue (DeletePageCall theWiki pageId pageRev)
                   (Wiki_DeletePage c theWiki pageId pageRev) w' of
              (r, w'') \<Rightarrow> (pass r, w''))
      in case issue (ReadPageCall theWiki pageId) (Wiki_ReadPage c theWiki pageId) w of
           (Inl err, w1) \<Rightarrow> (Inl (Upstream err), w1)
         | (Inr (_, thePage), w1) \<Rightarrow>
             if OwningPage thePage \<noteq> pageId then (Inl BadRequestError, w1)
             else
               (case issue (WikiManagerReadCall wiki curUser)
                       (WikiManager_Read c wiki curUser) w1 of
                  (Inl err, w2) \<Rightarrow> (Inl (Upstream err), w2)
                | (Inr (wRev, wr), w2) \<Rightarrow>
                    if HomePageId wr = pageId then
                      (let wr' = wr\<lparr>HomePageId := ''''\<rparr>
                       in case issue (WikiManagerUpdateCall wiki wRev wr' curUser)
                                 (WikiManager_Update c wiki wRev wr' curUser) w2 of
                            (Inl err, w3) \<Rightarrow> (Inl (Upstream err), w3)
                          | (Inr _, w3) \<Rightarrow> deletePage w3)
                    else deletePage w2))"

definition allowedToUpdateComment ::
  "'s Collaborators \<Rightarrow> string \<Rightarrow> string \<Rightarrow> CurrentUserInfo \<Rightarrow> 's world \<Rightarrow> bool \<times> 's world" where
  "allowedToUpdateComment c wiki commentId curUser w =
     (let userName = UserName (User curUser);
          userRoles = Roles (User curUser);
          auth = Auth curUser;
          theWiki = SelectWiki (wikiDbString wiki) auth
      in case issue (ReadCommentCall theWiki commentId) (Wiki_ReadComment c theWiki commentId) w of
           (Inl err, w1) \<Rightarrow> (False, w1)
         | (Inr (_, comment), w1) \<Rightarrow>
             (let isAdmin =
                    (HasRole c userRoles (AdminRole c wiki) \<or>
                     HasRole c userRoles (AdminRole c (MainDbName c)) \<or>
                     HasRole c userRoles (MasterRole c))
              in if Author comment = userName \<or> isAdmin then (True, w1) else (False, w1)))"

definition SaveComment ::
  "'s Collaborators \<Rightarrow> MdLib \<Rightarrow> string \<Rightarrow> string \<Rightarrow> Comment \<Rightarrow> string \<Rightarrow> string
    \<Rightarrow> CurrentUserInfo \<Rightarrow> 's world \<Rightarrow> (error + string) completion \<times> 's world" where
  "SaveComment c lib wiki pageId comment commentId commentRev curUser w =
     (let auth = Auth curUser;
          theUser = User curUser;
          renderAndStore = (\<lambda>w1.
            case receive (processMarkdown lib (Raw (Comment.Content comment))) of
              BlockedForever \<Rightarrow> (BlockedForever, w1)
            | ProcessCrashed v \<Rightarrow> (ProcessCrashed v, w1)
            | Completed formatted \<Rightarrow>
                (let comment' =
                       comment\<lparr>Comment.Content :=
                         (Comment.Content comment)\<lparr>Formatted := formatted\<rparr>\<rparr>;
                     theWiki = SelectWiki (wikiDbString wiki) auth
                 in case issue
                           (SaveCommentCall theWiki comment' commentId commentRev pageId
                              (UserName theUser))
                           (Wiki_SaveComment c theWiki comment' commentId commentRev pageId
                              (UserName theUser)) w1 of
                      (r, w2) \<Rightarrow> (Completed (pass r), w2)))
      in if commentRev \<noteq> '''' then
           (case allowedToUpdateComment c wiki commentId curUser w of
              (cu, w1) \<Rightarrow>
                if cu = False then (Completed (Inl Forbidden), w1) else renderAndStore w1)
         else renderAndStore w)"

subsection \<open>The parent of a row, in the words of the specification\<close>

text \<open>
  The second-to-last entry of the row's own lineage, or the empty string when the lineage
  has fewer than two entries.
\<close>

definition specParent :: "string list \<Rightarrow> string" where
  "specParent lineage = (if length lineage < 2 then '''' else rev lineage ! 1)"

subsection \<open>Collaborators for the examples\<close>

text \<open>
  A store that answers every request with an error and counts the requests, and a
  renderer that works; the examples replace single operations. Roles are looked up in
  the list, the admin role of a wiki is its name followed by \<open>:admin\<close>.
\<close>

definition unavailable :: upstream_error where
  "unavailable = UpstreamError ''unavailable''"

definition downStore :: "nat Collaborators" where
  "downStore =
     \<lparr>Wiki_ReadPage = (\<lambda>_ _ n. (Inl unavailable, Suc n)),
      Wiki_SavePage = (\<lambda>_ _ _ _ _ n. (Inl unavailable, Suc n)),
      Wiki_ReadPageBySlug = (\<lambda>_ _ n. (Inl unavailable, Suc n)),
      Wiki_DeletePage = (\<lambda>_ _ _ n. (Inl unavailable, Suc n)),
      Wiki_ReadMultiplePages = (\<lambda>_ _ n. (Inl unavailable, Suc n)),
      Wiki_ReadComment = (\<lambda>_ _ n. (Inl unavailable, Suc n)),
      Wiki_SaveComment = (\<lambda>_ _ _ _ _ _ n. (Inl unavailable, Suc n)),
      DB_GetView = (\<lambda>_ _ _ _ n. (Inl unavailable, Suc n)),
      WikiManager_Read = (\<lambda>_ _ n. (Inl unavailable, Suc n)),
      WikiManager_Update = (\<lambda>_ _ _ _ n. (Inl unavailable, Suc n)),
      HasRole = (\<lambda>roles role. role \<in> set roles),
      AdminRole = (\<lambda>wiki. wiki @ '':admin''),
      MasterRole = ''master'',
      MainDbName = ''main''\<rparr>"

definition goodLib :: MdLib where
  "goodLib =
     \<lparr>ParseDocument = (\<lambda>text _. Returns (length text)),
      RenderHtml = (\<lambda>_ _. Returns ''<p>ok</p>''),
      Free = (\<lambda>_. Returns ()),
      Sanitize = (\<lambda>_ html. Returns html),
      CMARK_OPT_DEFAULT = 0\<rparr>"

definition alice :: CurrentUserInfo where
  "alice = \<lparr>Auth = ''alice:pw'', User = \<lparr>UserName = ''alice'', Roles = [''books:read'']\<rparr>\<rparr>"

definition start :: "nat world" where
  "start = \<lparr>store = 0, calls = []\<rparr>"

definition aPage :: "string \<Rightarrow> string list \<Rightarrow> string \<Rightarrow> Page" where
  "aPage title lineage owner =
     \<lparr>Title = title, Lineage = lineage, OwningPage = owner,
      Content = \<lparr>Raw = ''# Hello'', Formatted = ''<h1>Hello</h1>''\<rparr>\<rparr>"

definition aComment :: "string \<Rightarrow> Comment" where
  "aComment author =
     \<lparr>Author = author, Content = \<lparr>Raw = ''nice'', Formatted = ''<p>nice</p>''\<rparr>\<rparr>"

definition withPage :: "Page \<Rightarrow> nat Collaborators \<Rightarrow> nat Collaborators" where
  "withPage page c = c\<lparr>Wiki_ReadPage := (\<lambda>_ _ n. (Inr (''3-c'', page), Suc n))\<rparr>"

definition withRows :: "MultiPageRow list \<Rightarrow> nat Collaborators \<Rightarrow> nat Collaborators" where
  "withRows rows c =
     c\<lparr>Wiki_ReadMultiplePages := (\<lambda>_ _ n. (Inr \<lparr>MultiPageResponse.Rows = rows\<rparr>, Suc n))\<rparr>"

definition withWikiRecord :: "WikiRecord \<Rightarrow> nat Collaborators \<Rightarrow> nat Collaborators" where
  "withWikiRecord wr c = c\<lparr>WikiManager_Read := (\<lambda>_ _ n. (Inr (''5-e'', wr), Suc n))\<rparr>"

definition withUpdates :: "nat Collaborators \<Rightarrow> nat Collaborators" where
  "withUpdates c = c\<lparr>WikiManager_Update := (\<lambda>_ _ _ _ n. (Inr ''6-f'', Suc n))\<rparr>"

definition withComment :: "Comment \<Rightarrow> nat Collaborators \<Rightarrow> nat Collaborators" where
  "withComment comment c = c\<lparr>Wiki_ReadComment := (\<lambda>_ _ n. (Inr (''2-b'', comment), Suc n))\<rparr>"

definition withSaves :: "nat Collaborators \<Rightarrow> nat Collaborators" where
  "withSaves c =
     c\<lparr>Wiki_SavePage := (\<lambda>_ _ _ _ _ n. (Inr ''1-a'', Suc n)),
       Wiki_SaveComment := (\<lambda>_ _ _ _ _ _ n. (Inr ''1-a'', Suc n))\<rparr>"

definition withSlugRows ::
  "WikiSlugViewResponseRow list \<Rightarrow> nat Collaborators \<Rightarrow> nat Collaborators" where
  "withSlugRows rows c =
     c\<lparr>DB_GetView := (\<lambda>_ _ _ _ n. (Inr \<lparr>WikiSlugViewResponse.Rows = rows\<rparr>, Suc n))\<rparr>"

definition ancestors :: "MultiPageRow list" where
  "ancestors =
     [\<lparr>MultiPageRow.Id' = ''root'', Doc = aPage ''Root'' [''root''] ''root''\<rparr>,
      \<lparr>MultiPageRow.Id' = ''mid'', Doc = aPage ''Mid'' [''root'', ''mid''] ''mid''\<rparr>]"

definition parseFaultLib :: MdLib where
  "parseFaultLib = goodLib\<lparr>ParseDocument := (\<lambda>_ _. Panics (PanicValue ''parse fault''))\<rparr>"

definition renderFaultLib :: MdLib where
  "renderFaultLib = goodLib\<lparr>RenderHtml := (\<lambda>_ _. Panics (PanicValue ''render fault''))\<rparr>"

definition nilPanicLib :: MdLib where
  "nilPanicLib = goodLib\<lparr>ParseDocument := (\<lambda>_ _. Panics NilValue)\<rparr>"

lemmas fixtures =
  downStore_def goodLib_def alice_def start_def aPage_def aComment_def unavailable_def
  withPage_def withRows_def withWikiRecord_def withUpdates_def withComment_def withSaves_def
  withSlugRows_def ancestors_def parseFaultLib_def renderFaultLib_def
  SelectWiki_def SelectDB_def wikiDbString_def

section \<open>Auxiliary facts\<close>

subsection \<open>The breadcrumb loop\<close>

lemma crumbsLoop_map: "crumbsLoop wiki rows crumbs = crumbs @ map (makeCrumb wiki) rows"
  by (induction rows arbitrary: crumbs) simp_all

lemma specParent_code:
  "specParent l = (if 2 \<le> length l then l ! (length l - 2) else '''')"
  by (auto simp: specParent_def rev_nth numeral_2_eq_2)

lemma Parent_makeCrumb: "Parent (makeCrumb wiki row) = specParent (Lineage (Doc row))"
  by (simp add: makeCrumb_def specParent_code Let_def)

lemma PageId_makeCrumb: "PageId (makeCrumb wiki row) = MultiPageRow.Id' row"
  by (simp add: makeCrumb_def Let_def)

lemma PageId_makeCrumb_map:
  "map (PageId \<circ> makeCrumb wiki) rows = map MultiPageRow.Id' rows"
  by (simp add: PageId_makeCrumb)

lemma makeCrumb_eq:
  "makeCrumb wiki row =
     \<lparr>Name = Title (Doc row), PageId = MultiPageRow.Id' row, WikiId = wiki,
      Parent = specParent (Lineage (Doc row))\<rparr>"
  by (simp add: makeCrumb_def specParent_code Let_def)

subsection \<open>What GetBreadcrumbs returns, case by case\<close>

lemma GetBreadcrumbs_read_fails:
  assumes "Wiki_ReadPage c (SelectWiki (wikiDbString wiki) (Auth curUser)) pageId (store w)
             = (Inl err, s1)"
  shows "fst (GetBreadcrumbs c wiki pageId curUser w) = Inl (Upstream err)"
  using assms by (simp add: GetBreadcrumbs_def Read_def issue_def pass_def Let_def)

lemma GetBreadcrumbs_short:
  assumes "Wiki_ReadPage c (SelectWiki (wikiDbString wiki) (Auth curUser)) pageId (store w)
             = (Inr (pRev, thePage), s1)"
    and "\<not> 1 < length (Lineage thePage)"
  shows "GetBreadcrumbs c wiki pageId curUser w =
           (Inr [makeCrumb wiki \<lparr>MultiPageRow.Id' = pageId, Doc = thePage\<rparr>],
            \<lparr>store = s1,
             calls = calls w @ [ReadPageCall (SelectWiki (wikiDbString wiki) (Auth curUser)) pageId]\<rparr>)"
  using assms
  by (simp add: GetBreadcrumbs_def Read_def issue_def pass_def Let_def crumbsLoop_map)

lemma GetBreadcrumbs_long:
  assumes "Wiki_ReadPage c (SelectWiki (wikiDbString wiki) (Auth curUser)) pageId (store w)
             = (Inr (pRev, thePage), s1)"
    and "1 < length (Lineage thePage)"
    and "Wiki_ReadMultiplePages c (SelectWiki (wikiDbString wiki) (Auth curUser))
           (butlast (Lineage thePage)) s1 = (Inr response, s2)"
  shows "GetBreadcrumbs c wiki pageId curUser w =
           (Inr (map (makeCrumb wiki)
                  (MultiPageResponse.Rows response @ [\<lparr>MultiPageRow.Id' = pageId, Doc = thePage\<rparr>])),
            \<lparr>store = s2,
             calls = calls w @
               [ReadPageCall (SelectWiki (wikiDbString wiki) (Auth curUser)) pageId,
                ReadMultiplePagesCall (SelectWiki (wikiDbString wiki) (Auth curUser))
                  (butlast (Lineage thePage))]\<rparr>)"
  using assms
  by (simp add: GetBreadcrumbs_def Read_def issue_def pass_def Let_def crumbsLoop_map
      butlast_conv_take)

lemma GetBreadcrumbs_fetch_fails:
  assumes "Wiki_ReadPage c (SelectWiki (wikiDbString wiki) (Auth curUser)) pageId (store w)
             = (Inr (pRev, thePage), s1)"
    and "1 < length (Lineage thePage)"
    and "Wiki_ReadMultiplePages c (SelectWiki (wikiDbString wiki) (Auth curUser))
           (butlast (Lineage thePage)) s1 = (Inl err, s2)"
  shows "fst (GetBreadcrumbs c wiki pageId curUser w) = Inl (Upstream err)"
  using assms
  by (simp add: GetBreadcrumbs_def Read_def issue_def pass_def Let_def butlast_conv_take)

subsection \<open>What the caller receives from the goroutine\<close>

lemma sends_append: "sends (xs @ ys) = sends xs @ sends ys"
  by (induction xs rule: sends.induct) simp_all

lemma processMarkdownBody_sends:
  "sends (fst (processMarkdownBody lib md)) =
     (case snd (processMarkdownBody lib md) of None \<Rightarrow> sends (fst (processMarkdownBody lib md)) | Some _ \<Rightarrow> [])"
  by (simp add: processMarkdownBody_def Let_def split: outcome.splits option.splits)

lemma processMarkdownBody_normal:
  "snd (processMarkdownBody lib md) = None \<longrightarrow>
     (\<exists>s. sends (fst (processMarkdownBody lib md)) = [s])"
  by (simp add: processMarkdownBody_def Let_def split: outcome.splits)

lemma receive_after_panic:
  assumes "snd (processMarkdownBody lib md) = Some v" and "v \<noteq> NilValue"
  shows "receive (processMarkdown lib md) = Completed ''''"
  using processMarkdownBody_sends [of lib md] assms
  by (cases "processMarkdownBody lib md")
    (simp add: receive_def processMarkdown_def sends_append Let_def)

lemma receive_after_nil_panic:
  assumes "snd (processMarkdownBody lib md) = Some NilValue"
  shows "receive (processMarkdown lib md) = BlockedForever"
  using processMarkdownBody_sends [of lib md] assms
  by (cases "processMarkdownBody lib md") (simp add: receive_def processMarkdown_def Let_def)

lemma receive_normal:
  assumes "snd (processMarkdownBody lib md) = None"
  shows "\<exists>s. receive (processMarkdown lib md) = Completed s"
  using processMarkdownBody_normal [of lib md] assms
  by (cases "processMarkdownBody lib md") (auto simp: receive_def processMarkdown_def Let_def)

lemma receive_cases:
  "(snd (processMarkdownBody lib md) = Some NilValue \<and>
      receive (processMarkdown lib md) = BlockedForever) \<or>
   (snd (processMarkdownBody lib md) \<noteq> Some NilValue \<and>
      (\<exists>s. receive (processMarkdown lib md) = Completed s))"
proof (cases "snd (processMarkdownBody lib md)")
  case None
  then show ?thesis using receive_normal [of lib md] by simp
next
  case (Some v)
  then show ?thesis
    using receive_after_panic [of lib md v] receive_after_nil_panic [of lib md]
    by (cases "v = NilValue") auto
qed


section \<open>The claims\<close>




text \<open>
  C2. When the record that Delete reads has an \<open>OwningPage\<close> other than \<open>pageId\<close>,
  Delete fails with BadRequest whatever the revision token, and the read is the only
  call it has made: no delete and no write reaches the store.
\<close>

theorem Delete_historical:
  assumes "Wiki_ReadPage c (SelectWiki (wikiDbString wiki) (Auth curUser)) pageId (store w)
             = (Inr (pRev, thePage), s1)"
    and "OwningPage thePage \<noteq> pageId"
  shows "Delete c wiki pageId pageRev curUser w =
           (Inl BadRequestError,
            \<lparr>store = s1,
             calls = calls w @ [ReadPageCall (SelectWiki (wikiDbString wiki) (Auth curUser)) pageId]\<rparr>) \<and>
         filter is_write (calls (snd (Delete c wiki pageId pageRev curUser w)))
           = filter is_write (calls w)"
  using assms by (simp add: Delete_def issue_def Let_def)

theorem Delete_historical_witness:
  "OwningPage (aPage ''Old'' [] ''p1'') \<noteq> ''p1-rev3'' \<and>
   Delete (withPage (aPage ''Old'' [] ''p1'') downStore)
       ''books'' ''p1-rev3'' ''9-z'' alice start =
     (Inl BadRequestError,
      \<lparr>store = 1, calls = [ReadPageCall \<lparr>wikiDb = ''wiki_books'', wikiAuth = ''alice:pw''\<rparr> ''p1-rev3'']\<rparr>)"
  using Delete_historical [of "withPage (aPage ''Old'' [] ''p1'') downStore"
      "''books''" alice "''p1-rev3''" start "''3-c''" "aPage ''Old'' [] ''p1''" 1 "''9-z''"]
  by (simp add: fixtures)

text \<open>
  C3. Delete of a live page that is the home page of its wiki. The update that clears
  \<open>HomePageId\<close> is issued before the page delete. When the update fails, its error is
  returned and no delete is issued. When it succeeds, the delete is issued next and its
  answer is returned; after a failed delete no further call is made, so the cleared
  pointer is not restored.
\<close>

theorem Delete_home_page:
  assumes "theWiki = SelectWiki (wikiDbString wiki) (Auth curUser)"
    and "Wiki_ReadPage c theWiki pageId (store w) = (Inr (pRev, thePage), s1)"
    and "OwningPage thePage = pageId"
    and "WikiManager_Read c wiki curUser s1 = (Inr (wRev, wr), s2)"
    and "HomePageId wr = pageId"
    and "WikiManager_Update c wiki wRev (wr\<lparr>HomePageId := ''''\<rparr>) curUser s2 = (updated, s3)"
    and "Wiki_DeletePage c theWiki pageId pageRev s3 = (deleted, s4)"
  shows "Delete c wiki pageId pageRev curUser w =
           (case updated of
              Inl err \<Rightarrow>
                (Inl (Upstream err),
                 \<lparr>store = s3,
                  calls = calls w @
                    [ReadPageCall theWiki pageId, WikiManagerReadCall wiki curUser,
                     WikiManagerUpdateCall wiki wRev (wr\<lparr>HomePageId := ''''\<rparr>) curUser]\<rparr>)
            | Inr _ \<Rightarrow>
                (case deleted of Inl err \<Rightarrow> Inl (Upstream err) | Inr dRev \<Rightarrow> Inr dRev,
                 \<lparr>store = s4,
                  calls = calls w @
                    [ReadPageCall theWiki pageId, WikiManagerReadCall wiki curUser,
                     WikiManagerUpdateCall wiki wRev (wr\<lparr>HomePageId := ''''\<rparr>) curUser,
                     DeletePageCall theWiki pageId pageRev]\<rparr>))"
  using assms by (simp add: Delete_def issue_def Let_def pass_def split: sum.splits)

theorem Delete_home_page_witness:
  "Delete (withWikiRecord \<lparr>HomePageId = ''home''\<rparr> (withPage (aPage ''Home'' [] ''home'') downStore))
       ''books'' ''home'' ''3-c'' alice start =
     (Inl (Upstream unavailable),
      \<lparr>store = 3,
       calls = [ReadPageCall \<lparr>wikiDb = ''wiki_books'', wikiAuth = ''alice:pw''\<rparr> ''home'',
                WikiManagerReadCall ''books'' alice,
                WikiManagerUpdateCall ''books'' ''5-e'' \<lparr>HomePageId = ''''\<rparr> alice]\<rparr>) \<and>
   Delete (withUpdates (withWikiRecord \<lparr>HomePageId = ''home''\<rparr>
             (withPage (aPage ''Home'' [] ''home'') downStore)))
       ''books'' ''home'' ''3-c'' alice start =
     (Inl (Upstream unavailable),
      \<lparr>store = 4,
       calls = [ReadPageCall \<lparr>wikiDb = ''wiki_books'', wikiAuth = ''alice:pw''\<rparr> ''home'',
                WikiManagerReadCall ''books'' alice,
                WikiManagerUpdateCall ''books'' ''5-e'' \<lparr>HomePageId = ''''\<rparr> alice,
                DeletePageCall \<lparr>wikiDb = ''wiki_books'', wikiAuth = ''alice:pw''\<rparr> ''home'' ''3-c'']\<rparr>)"
  using Delete_home_page [OF refl,
      where c = "withWikiRecord \<lparr>HomePageId = ''home''\<rparr> (withPage (aPage ''Home'' [] ''home'') downStore)"
        and wiki = "''books''" and pageId = "''home''" and pageRev = "''3-c''" and curUser = alice
        and w = start and pRev = "''3-c''" and thePage = "aPage ''Home'' [] ''home''" and ?s1.0 = 1
        and wRev = "''5-e''" and wr = "\<lparr>HomePageId = ''home''\<rparr>" and ?s2.0 = 2
        and updated = "Inl unavailable" and ?s3.0 = 3 and deleted = "Inl unavailable" and ?s4.0 = 4]
    Delete_home_page [OF refl,
      where c = "withUpdates (withWikiRecord \<lparr>HomePageId = ''home''\<rparr>
                   (withPage (aPage ''Home'' [] ''home'') downStore))"
        and wiki = "''books''" and pageId = "''home''" and pageRev = "''3-c''" and curUser = alice
        and w = start and pRev = "''3-c''" and thePage = "aPage ''Home'' [] ''home''" and ?s1.0 = 1
        and wRev = "''5-e''" and wr = "\<lparr>HomePageId = ''home''\<rparr>" and ?s2.0 = 2
        and updated = "Inr ''6-f''" and ?s3.0 = 3 and deleted = "Inl unavailable" and ?s4.0 = 4]
  by (simp add: fixtures)

text \<open>
  C4. \<open>allowedToUpdateComment\<close> answers true exactly when the comment is fetched and the
  user is its author or holds the admin role of the wiki, the admin role of the main
  database, or the master role. In particular a failed fetch gives false.
\<close>

theorem allowedToUpdateComment_iff:
  "fst (allowedToUpdateComment c wiki commentId curUser w) \<longleftrightarrow>
     (\<exists>cRev comment s1.
        Wiki_ReadComment c (SelectWiki (wikiDbString wiki) (Auth curUser)) commentId (store w)
          = (Inr (cRev, comment), s1) \<and>
        (UserName (User curUser) = Author comment \<or>
         HasRole c (Roles (User curUser)) (AdminRole c wiki) \<or>
         HasRole c (Roles (User curUser)) (AdminRole c (MainDbName c)) \<or>
         HasRole c (Roles (User curUser)) (MasterRole c)))"
  by (auto simp: allowedToUpdateComment_def issue_def Let_def split: prod.splits sum.splits)

theorem allowedToUpdateComment_iff_witness:
  "fst (allowedToUpdateComment (withComment (aComment ''alice'') downStore) ''books'' ''c1'' alice start) \<and>
   \<not> fst (allowedToUpdateComment (withComment (aComment ''bob'') downStore) ''books'' ''c1'' alice start) \<and>
   \<not> fst (allowedToUpdateComment downStore ''books'' ''c1'' alice start)"
  using allowedToUpdateComment_iff [of "withComment (aComment ''alice'') downStore" "''books''" "''c1''" alice start]
    allowedToUpdateComment_iff [of "withComment (aComment ''bob'') downStore" "''books''" "''c1''" alice start]
    allowedToUpdateComment_iff [of downStore "''books''" "''c1''" alice start]
  by (simp add: fixtures)




text \<open>
  C6. An update of a comment (\<open>commentRev\<close> not empty) by a user who is neither the
  author of the stored comment nor holder of one of the three roles fails with
  Forbidden; the gate's read is the only call made, so nothing is written.
\<close>

theorem SaveComment_update_forbidden:
  assumes "commentRev \<noteq> ''''"
    and "Wiki_ReadComment c (SelectWiki (wikiDbString wiki) (Auth curUser)) commentId (store w)
           = (Inr (cRev, stored), s1)"
    and "Author stored \<noteq> UserName (User curUser)"
    and "\<not> HasRole c (Roles (User curUser)) (AdminRole c wiki)"
    and "\<not> HasRole c (Roles (User curUser)) (AdminRole c (MainDbName c))"
    and "\<not> HasRole c (Roles (User curUser)) (MasterRole c)"
  shows "SaveComment c lib wiki pageId comment commentId commentRev curUser w =
           (Completed (Inl Forbidden),
            \<lparr>store = s1,
             calls = calls w @
               [ReadCommentCall (SelectWiki (wikiDbString wiki) (Auth curUser)) commentId]\<rparr>) \<and>
         filter is_write
             (calls (snd (SaveComment c lib wiki pageId comment commentId commentRev curUser w)))
           = filter is_write (calls w)"
  using assms by (simp add: SaveComment_def allowedToUpdateComment_def issue_def Let_def)

theorem SaveComment_update_forbidden_witness:
  "''2-b'' \<noteq> '''' \<and>
   Author (aComment ''bob'') \<noteq> UserName (User alice) \<and>
   SaveComment (withSaves (withComment (aComment ''bob'') downStore)) goodLib ''books'' ''leaf''
       (aComment ''bob'') ''c1'' ''2-b'' alice start =
     (Completed (Inl Forbidden),
      \<lparr>store = 1,
       calls = [ReadCommentCall \<lparr>wikiDb = ''wiki_books'', wikiAuth = ''alice:pw''\<rparr> ''c1'']\<rparr>)"
  using SaveComment_update_forbidden
    [where c = "withSaves (withComment (aComment ''bob'') downStore)" and lib = goodLib
       and wiki = "''books''" and pageId = "''leaf''" and comment = "aComment ''bob''"
       and commentId = "''c1''" and commentRev = "''2-b''" and curUser = alice and w = start
       and cRev = "''2-b''" and stored = "aComment ''bob''" and ?s1.0 = 1]
  by (simp add: fixtures)

text \<open>
  C7. ReadBySlug, once the slug view has answered. With no row for the wiki slug it
  fails with NotFound and the view query is the only call made. With a row, the page
  slug is looked up in the store of the wiki the first row names, and the lookup's
  failure, or its page, is returned.
\<close>

theorem ReadBySlug_resolution:
  assumes "mainDb = SelectDB (MainDbName c) (Auth curUser)"
    and "view = GetViewCall mainDb ''wiki_query'' ''getWikiBySlug'' wikiSlug"
    and "DB_GetView c mainDb ''wiki_query'' ''getWikiBySlug'' wikiSlug (store w) = (Inr response, s1)"
  shows "(WikiSlugViewResponse.Rows response = [] \<longrightarrow>
            ReadBySlug c wikiSlug pageSlug curUser w =
              (Inl NotFoundError, \<lparr>store = s1, calls = calls w @ [view]\<rparr>)) \<and>
         (\<forall>row rest theWiki answer s2.
            WikiSlugViewResponse.Rows response = row # rest \<and>
            theWiki = SelectWiki (wikiDbString (WikiSlugViewResponseRow.Id' row)) (Auth curUser) \<and>
            Wiki_ReadPageBySlug c theWiki pageSlug s1 = (answer, s2) \<longrightarrow>
            ReadBySlug c wikiSlug pageSlug curUser w =
              (case answer of
                 Inl err \<Rightarrow> Inl (Upstream err)
               | Inr (pageRev, page) \<Rightarrow> Inr (WikiSlugViewResponseRow.Id' row, pageRev, page),
               \<lparr>store = s2, calls = calls w @ [view, ReadPageBySlugCall theWiki pageSlug]\<rparr>))"
  using assms by (auto simp: ReadBySlug_def issue_def Let_def split: sum.splits)

theorem ReadBySlug_resolution_witness:
  "ReadBySlug (withSlugRows [] downStore) ''acme'' ''intro'' alice start =
     (Inl NotFoundError,
      \<lparr>store = 1,
       calls = [GetViewCall \<lparr>dbName = ''main'', dbAuth = ''alice:pw''\<rparr>
                  ''wiki_query'' ''getWikiBySlug'' ''acme'']\<rparr>) \<and>
   ReadBySlug (withSlugRows [\<lparr>WikiSlugViewResponseRow.Id' = ''w42''\<rparr>] downStore)
       ''acme'' ''intro'' alice start =
     (Inl (Upstream unavailable),
      \<lparr>store = 2,
       calls = [GetViewCall \<lparr>dbName = ''main'', dbAuth = ''alice:pw''\<rparr>
                  ''wiki_query'' ''getWikiBySlug'' ''acme'',
                ReadPageBySlugCall \<lparr>wikiDb = ''wiki_w42'', wikiAuth = ''alice:pw''\<rparr> ''intro'']\<rparr>)"
  using ReadBySlug_resolution [OF refl refl,
      where c = "withSlugRows [] downStore" and curUser = alice and wikiSlug = "''acme''"
        and w = start and response = "\<lparr>WikiSlugViewResponse.Rows = []\<rparr>" and ?s1.0 = 1
        and pageSlug = "''intro''"]
    ReadBySlug_resolution [OF refl refl,
      where c = "withSlugRows [\<lparr>WikiSlugViewResponseRow.Id' = ''w42''\<rparr>] downStore"
        and curUser = alice and wikiSlug = "''acme''" and w = start
        and response = "\<lparr>WikiSlugViewResponse.Rows = [\<lparr>WikiSlugViewResponseRow.Id' = ''w42''\<rparr>]\<rparr>"
        and ?s1.0 = 1 and pageSlug = "''intro''"]
  by (simp add: fixtures)

text \<open>
  C8. When GetBreadcrumbs succeeds, its breadcrumbs are those of the fetched rows
  followed by the page itself, and the \<open>Parent\<close> of each is the second-to-last entry of
  that row's own lineage, or empty when the lineage has fewer than two entries. A page
  with an empty lineage gets the single breadcrumb of itself, with an empty \<open>Parent\<close>.
\<close>

theorem GetBreadcrumbs_parents:
  assumes "theWiki = SelectWiki (wikiDbString wiki) (Auth curUser)"
    and "GetBreadcrumbs c wiki pageId curUser w = (Inr crumbs, w')"
  shows "\<exists>pRev thePage s1 fetched.
           Wiki_ReadPage c theWiki pageId (store w) = (Inr (pRev, thePage), s1) \<and>
           (if 1 < length (Lineage thePage)
            then \<exists>response s2.
                   Wiki_ReadMultiplePages c theWiki (butlast (Lineage thePage)) s1
                     = (Inr response, s2) \<and>
                   fetched = MultiPageResponse.Rows response
            else fetched = []) \<and>
           map PageId crumbs = map MultiPageRow.Id' fetched @ [pageId] \<and>
           map Parent crumbs =
             map (\<lambda>row. specParent (Lineage (Doc row))) fetched @ [specParent (Lineage thePage)] \<and>
           (Lineage thePage = [] \<longrightarrow>
              crumbs = [\<lparr>Name = Title thePage, PageId = pageId, WikiId = wiki, Parent = ''''\<rparr>])"
proof -
  let ?cur = "\<lambda>p. \<lparr>MultiPageRow.Id' = pageId, Doc = p\<rparr>"
  obtain r s1 where rd: "Wiki_ReadPage c theWiki pageId (store w) = (r, s1)"
    by (cases "Wiki_ReadPage c theWiki pageId (store w)") simp
  from assms(2) have ok: "fst (GetBreadcrumbs c wiki pageId curUser w) = Inr crumbs"
    by simp
  obtain pRev thePage where r: "r = Inr (pRev, thePage)"
  proof (cases r)
    case (Inl err)
    with rd ok GetBreadcrumbs_read_fails [of c wiki curUser pageId w err s1] assms(1)
    show ?thesis by simp
  next
    case (Inr v)
    then show ?thesis using that by (cases v) simp
  qed
  with rd have rd': "Wiki_ReadPage c (SelectWiki (wikiDbString wiki) (Auth curUser)) pageId (store w)
      = (Inr (pRev, thePage), s1)"
    using assms(1) by simp
  show ?thesis
  proof (cases "1 < length (Lineage thePage)")
    case False
    from GetBreadcrumbs_short [OF rd' False] ok
    have c: "crumbs = [makeCrumb wiki (?cur thePage)]" by simp
    have "map PageId crumbs = [pageId]"
      and "map Parent crumbs = [specParent (Lineage thePage)]"
      and "Lineage thePage = [] \<longrightarrow>
            crumbs = [\<lparr>Name = Title thePage, PageId = pageId, WikiId = wiki, Parent = ''''\<rparr>]"
      by (simp_all add: c makeCrumb_eq specParent_def)
    with rd' False assms(1) show ?thesis by auto
  next
    case True
    obtain m s2 where mr: "Wiki_ReadMultiplePages c (SelectWiki (wikiDbString wiki) (Auth curUser))
        (butlast (Lineage thePage)) s1 = (m, s2)"
      by (cases "Wiki_ReadMultiplePages c (SelectWiki (wikiDbString wiki) (Auth curUser))
        (butlast (Lineage thePage)) s1") simp
    obtain response where m: "m = Inr response"
    proof (cases m)
      case (Inl err)
      with mr ok GetBreadcrumbs_fetch_fails [OF rd' True, of err s2]
      show ?thesis by simp
    next
      case (Inr v)
      then show ?thesis using that by simp
    qed
    from GetBreadcrumbs_long [OF rd' True mr [unfolded m]] ok
    have c: "crumbs = map (makeCrumb wiki) (MultiPageResponse.Rows response @ [?cur thePage])"
      by simp
    have p1: "map PageId crumbs = map MultiPageRow.Id' (MultiPageResponse.Rows response) @ [pageId]"
      by (simp add: c PageId_makeCrumb_map PageId_makeCrumb)
    have p2: "map Parent crumbs =
        map (\<lambda>row. specParent (Lineage (Doc row))) (MultiPageResponse.Rows response)
          @ [specParent (Lineage thePage)]"
      by (simp add: c o_def Parent_makeCrumb)
    from True have p3: "Lineage thePage \<noteq> []" by auto
    show ?thesis
      using rd' True mr m p1 p2 p3 assms(1) by auto
  qed
qed

theorem GetBreadcrumbs_parents_witness:
  "GetBreadcrumbs (withRows ancestors
       (withPage (aPage ''Leaf'' [''root'', ''mid'', ''leaf''] ''leaf'') downStore))
     ''books'' ''leaf'' alice start =
     (Inr [\<lparr>Name = ''Root'', PageId = ''root'', WikiId = ''books'', Parent = ''''\<rparr>,
           \<lparr>Name = ''Mid'', PageId = ''mid'', WikiId = ''books'', Parent = ''root''\<rparr>,
           \<lparr>Name = ''Leaf'', PageId = ''leaf'', WikiId = ''books'', Parent = ''mid''\<rparr>],
      \<lparr>store = 2,
       calls = [ReadPageCall \<lparr>wikiDb = ''wiki_books'', wikiAuth = ''alice:pw''\<rparr> ''leaf'',
                ReadMultiplePagesCall \<lparr>wikiDb = ''wiki_books'', wikiAuth = ''alice:pw''\<rparr>
                  [''root'', ''mid'']]\<rparr>) \<and>
   map Parent
     [\<lparr>Name = ''Root'', PageId = ''root'', WikiId = ''books'', Parent = ''''\<rparr>,
      \<lparr>Name = ''Mid'', PageId = ''mid'', WikiId = ''books'', Parent = ''root''\<rparr>,
      \<lparr>Name = ''Leaf'', PageId = ''leaf'', WikiId = ''books'', Parent = ''mid''\<rparr>] =
     map (\<lambda>row. specParent (Lineage (Doc row))) ancestors
       @ [specParent (Lineage (aPage ''Leaf'' [''root'', ''mid'', ''leaf''] ''leaf''))]"
proof -
  have run: "GetBreadcrumbs (withRows ancestors
       (withPage (aPage ''Leaf'' [''root'', ''mid'', ''leaf''] ''leaf'') downStore))
     ''books'' ''leaf'' alice start =
     (Inr [\<lparr>Name = ''Root'', PageId = ''root'', WikiId = ''books'', Parent = ''''\<rparr>,
           \<lparr>Name = ''Mid'', PageId = ''mid'', WikiId = ''books'', Parent = ''root''\<rparr>,
           \<lparr>Name = ''Leaf'', PageId = ''leaf'', WikiId = ''books'', Parent = ''mid''\<rparr>],
      \<lparr>store = 2,
       calls = [ReadPageCall \<lparr>wikiDb = ''wiki_books'', wikiAuth = ''alice:pw''\<rparr> ''leaf'',
                ReadMultiplePagesCall \<lparr>wikiDb = ''wiki_books'', wikiAuth = ''alice:pw''\<rparr>
                  [''root'', ''mid'']]\<rparr>)"
    by (simp add: fixtures GetBreadcrumbs_def Read_def issue_def pass_def makeCrumb_def Let_def)
  from GetBreadcrumbs_parents [OF refl run]
  show ?thesis using run by (auto simp: fixtures)
qed

text \<open>
  C9 fails on the code. With a parser that returns a document and then panics while
  rendering it, the goroutine recovers, logs, sends the empty string and ends, and
  \<open>Free\<close> has not been called on the document.
\<close>

theorem processMarkdown_render_fault_no_Free:
  "ParseDocument renderFaultLib ''# Hello'' 0 = Returns 7 \<and>
   events (processMarkdown renderFaultLib ''# Hello'') =
     [ParseDocumentCall ''# Hello'' 0, RenderHtmlCall 7 0, LogPrintln (PanicValue ''render fault''), ChanSend ''''] \<and>
   frees (events (processMarkdown renderFaultLib ''# Hello'')) = [] \<and>
   receive (processMarkdown renderFaultLib ''# Hello'') = Completed ''''"
  by (simp add: renderFaultLib_def goodLib_def processMarkdown_def processMarkdownBody_def
      receive_def Let_def)

text \<open>
  C10. SaveComment with an empty \<open>commentRev\<close>, for any user and any comment. Unless the
  render step panics with a \<^verbatim>\<open>nil\<close> value, the one call made is the store's
  SaveComment, so the comment is never read for the gate, and the result is the
  store's answer, which is never the Forbidden error of the gate. After a panic with a
  \<^verbatim>\<open>nil\<close> value the call waits on the channel: no call at all is made and nothing is
  returned.
\<close>

theorem SaveComment_create_ungated:
  "(snd (processMarkdownBody lib (Raw (Comment.Content comment))) \<noteq> Some NilValue \<and>
    (\<exists>formatted answer s1.
       receive (processMarkdown lib (Raw (Comment.Content comment))) = Completed formatted \<and>
       Wiki_SaveComment c (SelectWiki (wikiDbString wiki) (Auth curUser))
          (comment\<lparr>Comment.Content := (Comment.Content comment)\<lparr>Formatted := formatted\<rparr>\<rparr>)
          commentId '''' pageId (UserName (User curUser)) (store w) = (answer, s1) \<and>
       SaveComment c lib wiki pageId comment commentId '''' curUser w =
         (Completed (pass answer),
          \<lparr>store = s1,
           calls = calls w @
             [SaveCommentCall (SelectWiki (wikiDbString wiki) (Auth curUser))
                (comment\<lparr>Comment.Content := (Comment.Content comment)\<lparr>Formatted := formatted\<rparr>\<rparr>)
                commentId '''' pageId (UserName (User curUser))]\<rparr>) \<and>
       pass answer \<noteq> Inl Forbidden)) \<or>
   (snd (processMarkdownBody lib (Raw (Comment.Content comment))) = Some NilValue \<and>
    SaveComment c lib wiki pageId comment commentId '''' curUser w = (BlockedForever, w))"
proof -
  let ?md = "Raw (Comment.Content comment)"
  from receive_cases [of lib ?md] show ?thesis
  proof (elim disjE conjE exE)
    assume nil: "snd (processMarkdownBody lib ?md) = Some NilValue"
      and blocked: "receive (processMarkdown lib ?md) = BlockedForever"
    have "SaveComment c lib wiki pageId comment commentId '''' curUser w = (BlockedForever, w)"
      using blocked by (simp add: SaveComment_def Let_def)
    with nil show ?thesis by simp
  next
    fix formatted
    assume notnil: "snd (processMarkdownBody lib ?md) \<noteq> Some NilValue"
      and r: "receive (processMarkdown lib ?md) = Completed formatted"
    obtain answer s1 where a: "Wiki_SaveComment c (SelectWiki (wikiDbString wiki) (Auth curUser))
        (comment\<lparr>Comment.Content := (Comment.Content comment)\<lparr>Formatted := formatted\<rparr>\<rparr>)
        commentId '''' pageId (UserName (User curUser)) (store w) = (answer, s1)"
      by (cases "Wiki_SaveComment c (SelectWiki (wikiDbString wiki) (Auth curUser))
        (comment\<lparr>Comment.Content := (Comment.Content comment)\<lparr>Formatted := formatted\<rparr>\<rparr>)
        commentId '''' pageId (UserName (User curUser)) (store w)") simp
    have f: "pass answer \<noteq> Inl Forbidden"
      by (simp add: pass_def Forbidden_def split: sum.splits)
    have s: "SaveComment c lib wiki pageId comment commentId '''' curUser w =
       (Completed (pass answer),
        \<lparr>store = s1,
         calls = calls w @
           [SaveCommentCall (SelectWiki (wikiDbString wiki) (Auth curUser))
              (comment\<lparr>Comment.Content := (Comment.Content comment)\<lparr>Formatted := formatted\<rparr>\<rparr>)
              commentId '''' pageId (UserName (User curUser))]\<rparr>)"
      using r a by (simp add: SaveComment_def issue_def Let_def)
    show ?thesis using notnil r a s f by blast
  qed
qed

theorem SaveComment_create_ungated_witness:
  "SaveComment (withSaves downStore) goodLib ''books'' ''leaf'' (aComment ''bob'') ''c9'' ''''
       alice start =
     (Completed (Inr ''1-a''),
      \<lparr>store = 1,
       calls = [SaveCommentCall \<lparr>wikiDb = ''wiki_books'', wikiAuth = ''alice:pw''\<rparr>
                  \<lparr>Author = ''bob'', Content = \<lparr>Raw = ''nice'', Formatted = ''<p>ok</p>''\<rparr>\<rparr>
                  ''c9'' '''' ''leaf'' ''alice'']\<rparr>) \<and>
   SaveComment (withSaves downStore) nilPanicLib ''books'' ''leaf'' (aComment ''bob'') ''c9'' ''''
       alice start = (BlockedForever, start)"
  using SaveComment_create_ungated [of goodLib "aComment ''bob''" "withSaves downStore" "''books''"
      alice "''c9''" "''leaf''" start]
    SaveComment_create_ungated [of nilPanicLib "aComment ''bob''" "withSaves downStore" "''books''"
      alice "''c9''" "''leaf''" start]
  by (auto simp: fixtures nilPanicLib_def pass_def receive_def processMarkdown_def
      processMarkdownBody_def Let_def)

end
